theory Spec2Isabelle
  imports Main "HOL-Library.Word"
begin

section \<open>Values, rows and the replies of the storage client\<close>

text \<open>
  The repository is a JavaScript backend over a hosted relational store. Two modules are
  embedded here: the database helper that holds \<open>claimReward\<close> and \<open>logActivity\<close>
  (\<^verbatim>\<open>src/unnamed/part_000\<close>), and the authentication controller
  (\<^verbatim>\<open>src/backend/controllers/auth.js\<close>) over its own database helper
  (\<^verbatim>\<open>src/backend/config/database.js\<close>).

  A JavaScript value is one of the few kinds the modelled code handles; an object is a
  finite map from property names to values (a missing property reads as \<open>Undefined\<close>).
\<close>

type_synonym uuid = string

datatype jsval = Undefined | Null | Str string | Num int

type_synonym obj = "string \<rightharpoonup> jsval"

definition field :: "obj \<Rightarrow> string \<Rightarrow> jsval" where
  "field ob k = (case ob k of None \<Rightarrow> Undefined | Some v \<Rightarrow> v)"

text \<open>
  The error object of the storage client carries a code; \<open>PGRST116\<close> is the code the
  source itself singles out (\<open>getUserByEmail\<close>) as "no single row".
  A thrown JavaScript exception is either \<open>new Error(message)\<close> or a storage error
  rethrown by \<open>if (error) throw error\<close>.
\<close>

datatype pg_error = PgError (pg_code: string)

datatype js_error = Error string | StoreError pg_error

text \<open>The \<open>{ data, error }\<close> pair every call of the storage client resolves to.\<close>

record 'a response =
  data :: "'a option"
  error :: "pg_error option"

text \<open>
  The insert inside \<open>logActivity\<close> is the one call the source wraps in \<open>try/catch\<close>,
  so it alone is given the third outcome of a rejected promise.
\<close>

datatype outcome = Accepted | Rejected pg_error | Raised js_error

text \<open>
  Everything outside the modules during one request: what the store answers to each
  call (\<open>None\<close>: the call is carried out), the clock (\<open>now\<close> is
  \<open>new Date().toISOString()\<close>, \<open>date_now\<close> the digits of \<open>Date.now()\<close>), the
  identifier the store assigns to a new row, and the library functions (\<open>bcryptjs\<close>, \<open>jsonwebtoken\<close>,
  \<open>String.prototype.trim\<close>, \<open>toLowerCase\<close>), which are parameters of the model.
  A secret is the list of its UTF-16 code units, which is what \<open>password.length\<close>
  counts.
\<close>

type_synonym secret = "16 word list"

record env =
  user_read :: "pg_error option"
  reward_read :: "pg_error option"
  claim_insert :: "pg_error option"
  user_write :: "pg_error option"
  stock_write :: "pg_error option"
  activity_insert :: outcome
  now :: string
  date_now :: string
  new_id :: string
  bcrypt_hash :: "secret \<Rightarrow> nat \<Rightarrow> string"
  bcrypt_compare :: "secret \<Rightarrow> string \<Rightarrow> bool"
  jwt_sign :: "obj \<Rightarrow> string"
  trim :: "string \<Rightarrow> string"
  toLowerCase :: "string \<Rightarrow> string"

subsection \<open>Tables\<close>

text \<open>
  Rows of the tables \<open>claimReward\<close> touches, with the columns it reads or writes
  (\<open>users.points\<close>, \<open>users.updated_at\<close>, \<open>rewards.title\<close>,
  \<open>rewards.points_required\<close>, \<open>rewards.stock\<close>) and the \<open>is_active\<close> flag of
  the schema. The integer columns are read as mathematical integers.
\<close>

record user_row =
  points :: int
  updated_at :: string

record reward_row =
  title :: string
  points_required :: int
  stock :: int
  is_active :: bool

record claim =
  user_id :: uuid
  reward_id :: uuid

record activity =
  act_user_id :: jsval
  tournament_id :: jsval
  act_reward_id :: jsval
  activity_type :: string
  description :: string
  points_change :: int

text \<open>
  The part of the state both database helpers share: whether the client was created
  (\<open>supabase !== null\<close>), the \<open>user_activity\<close> table and the lines written with
  \<open>console.error\<close>. Each helper extends it with its own tables.
\<close>

record log_state =
  supabase :: bool
  user_activity :: "activity list"
  console :: "string list"

record store = log_state +
  users :: "uuid \<rightharpoonup> user_row"
  rewards :: "uuid \<rightharpoonup> reward_row"
  user_rewards :: "claim list"

subsection \<open>The storage client\<close>

text \<open>
  \<open>.single()\<close> resolves to the one matching row, or to the error \<open>PGRST116\<close> with
  \<open>data = null\<close> when there is none; a failing call resolves to its error.
\<close>

definition single :: "pg_error option \<Rightarrow> 'a option \<Rightarrow> 'a response" where
  "single reply row =
     (case reply of
        Some e \<Rightarrow> \<lparr>data = None, error = Some e\<rparr>
      | None \<Rightarrow>
          (case row of
             None \<Rightarrow> \<lparr>data = None, error = Some (PgError ''PGRST116'')\<rparr>
           | Some r \<Rightarrow> \<lparr>data = Some r, error = None\<rparr>))"

section \<open>The database helper of the claim engine\<close>

subsection \<open>getUserById, updateUser\<close>

definition getUserById :: "env \<Rightarrow> store \<Rightarrow> uuid \<Rightarrow> js_error + user_row option" where
  "getUserById e s userId =
     (if \<not> supabase s then Inr (Some \<lparr>points = 100, updated_at = now e\<rparr>)
      else
        let r = single (user_read e) (users s userId) in
        (case error r of Some err \<Rightarrow> Inl (StoreError err) | None \<Rightarrow> Inr (data r)))"

text \<open>
  \<open>updateUser(id, { points })\<close>: with a client, the row is updated and read back with
  \<open>.select().single()\<close>; any error is thrown. Without a client the mock object is
  returned and nothing is stored.
\<close>

definition updateUser ::
  "env \<Rightarrow> store \<Rightarrow> uuid \<Rightarrow> int \<Rightarrow> (js_error + user_row option) \<times> store" where
  "updateUser e s userId pts =
     (if \<not> supabase s then (Inr (Some \<lparr>points = pts, updated_at = now e\<rparr>), s)
      else
        (case user_write e of
           Some err \<Rightarrow> (Inl (StoreError err), s)
         | None \<Rightarrow>
             (case users s userId of
                None \<Rightarrow> (Inl (StoreError (PgError ''PGRST116'')), s)
              | Some u \<Rightarrow>
                  let u' = u\<lparr>points := pts, updated_at := now e\<rparr>
                  in (Inr (Some u'), s\<lparr>users := (users s)(userId \<mapsto> u')\<rparr>))))"

subsection \<open>logActivity\<close>

text \<open>
  The insert into \<open>user_activity\<close> (no \<open>.select()\<close>, so \<open>data\<close> is null even when
  the row is stored). \<open>Inl\<close> is the rejected promise.
\<close>

definition insert_activity ::
  "env \<Rightarrow> 'a log_state_scheme \<Rightarrow> activity \<Rightarrow>
     (js_error + unit response) \<times> 'a log_state_scheme" where
  "insert_activity e s row =
     (case activity_insert e of
        Accepted \<Rightarrow>
          (Inr \<lparr>data = None, error = None\<rparr>, s\<lparr>user_activity := user_activity s @ [row]\<rparr>)
      | Rejected err \<Rightarrow> (Inr \<lparr>data = None, error = Some err\<rparr>, s)
      | Raised x \<Rightarrow> (Inl x, s))"

text \<open>
  \<open>logActivity(userId, activityType, description, pointsChange = 0, tournamentId = null,
  rewardId = null)\<close>. The default arguments are written out by the callers below.
  The \<open>catch\<close> turns a rejected insert into a console line and \<open>null\<close>; an error in the
  reply is written to the console and \<open>data\<close> is returned.
\<close>

definition logActivity ::
  "env \<Rightarrow> 'a log_state_scheme \<Rightarrow> jsval \<Rightarrow> string \<Rightarrow> string \<Rightarrow> int \<Rightarrow> jsval \<Rightarrow> jsval \<Rightarrow>
     (js_error + unit option) \<times> 'a log_state_scheme" where
  "logActivity e s userId activityType descr pointsChange tournamentId rewardId =
     (if \<not> supabase s then (Inr None, s)
      else
        (case insert_activity e s
                \<lparr>act_user_id = userId, tournament_id = tournamentId, act_reward_id = rewardId,
                 activity_type = activityType, description = descr,
                 points_change = pointsChange\<rparr> of
           (Inl x, s') \<Rightarrow> (Inr None, s'\<lparr>console := console s' @ [''Activity logging failed:'']\<rparr>)
         | (Inr r, s') \<Rightarrow>
             (Inr (data r),
              (case error r of
                 Some err \<Rightarrow> s'\<lparr>console := console s' @ [''Activity logging error:'']\<rparr>
               | None \<Rightarrow> s'))))"

subsection \<open>claimReward\<close>

text \<open>
  Lines 266-269: the two reads run under \<open>Promise.all\<close>. The read of the reward never
  rejects (its \<open>error\<close> is not looked at); a rejected \<open>getUserById\<close> rejects the whole.
\<close>

definition claim_reads ::
  "env \<Rightarrow> store \<Rightarrow> uuid \<Rightarrow> uuid \<Rightarrow> js_error + (user_row option \<times> reward_row response)" where
  "claim_reads e s userId rewardId =
     (case getUserById e s userId of
        Inl x \<Rightarrow> Inl x
      | Inr user \<Rightarrow> Inr (user, single (reward_read e) (rewards s rewardId)))"

text \<open>Lines 271-281: the three checks on the values read.\<close>

definition claim_checks ::
  "user_row option \<Rightarrow> reward_row option \<Rightarrow> js_error + (user_row \<times> reward_row)" where
  "claim_checks user reward_data =
     (case (user, reward_data) of
        (Some u, Some r) \<Rightarrow>
          if points u < points_required r then Inl (Error ''Insufficient points'')
          else if stock r \<le> 0 then Inl (Error ''Reward out of stock'')
          else Inr (u, r)
      | _ \<Rightarrow> Inl (Error ''User or reward not found''))"

text \<open>
  Lines 261-281, everything before the first write: the guard on the client, the reads,
  the checks. It leaves the store as it is.
\<close>

definition claim_read ::
  "env \<Rightarrow> store \<Rightarrow> uuid \<Rightarrow> uuid \<Rightarrow> js_error + (user_row \<times> reward_row)" where
  "claim_read e s userId rewardId =
     (if \<not> supabase s then Inl (Error ''Database not configured'')
      else
        (case claim_reads e s userId rewardId of
           Inl x \<Rightarrow> Inl x
         | Inr (user, reward) \<Rightarrow> claim_checks user (data reward)))"

text \<open>
  Lines 284-288: the insert into \<open>user_rewards\<close>, read back with \<open>.select().single()\<close>.
\<close>

definition insert_user_reward :: "env \<Rightarrow> store \<Rightarrow> claim \<Rightarrow> claim response \<times> store" where
  "insert_user_reward e s row =
     (case claim_insert e of
        Some err \<Rightarrow> (\<lparr>data = None, error = Some err\<rparr>, s)
      | None \<Rightarrow> (\<lparr>data = Some row, error = None\<rparr>, s\<lparr>user_rewards := user_rewards s @ [row]\<rparr>))"

text \<open>
  Line 295: the update of the stock. Its reply is never inspected, so a refused write
  only leaves the row as it was.
\<close>

definition update_stock :: "env \<Rightarrow> store \<Rightarrow> uuid \<Rightarrow> int \<Rightarrow> store" where
  "update_stock e s rewardId n =
     (case stock_write e of
        Some err \<Rightarrow> s
      | None \<Rightarrow>
          (case rewards s rewardId of
             None \<Rightarrow> s
           | Some r \<Rightarrow> s\<lparr>rewards := (rewards s)(rewardId \<mapsto> r\<lparr>stock := n\<rparr>)\<rparr>))"

text \<open>
  Lines 284-301: the commit phase, from the values \<open>user\<close> and \<open>reward\<close> read
  earlier. Both updates of the \<open>Promise.all\<close> are issued; a rejected \<open>updateUser\<close>
  rejects the call after the stock has been written.
\<close>

definition claim_commit ::
  "env \<Rightarrow> store \<Rightarrow> uuid \<Rightarrow> uuid \<Rightarrow> user_row \<Rightarrow> reward_row \<Rightarrow> (js_error + claim option) \<times> store" where
  "claim_commit e s userId rewardId user reward =
     (case insert_user_reward e s \<lparr>user_id = userId, reward_id = rewardId\<rparr> of
        (ins, s1) \<Rightarrow>
          (case error ins of
             Some err \<Rightarrow> (Inl (StoreError err), s1)
           | None \<Rightarrow>
               (case updateUser e s1 userId (points user - points_required reward) of
                  (upd, s2) \<Rightarrow>
                    let s3 = update_stock e s2 rewardId (stock reward - 1) in
                    (case upd of
                       Inl x \<Rightarrow> (Inl x, s3)
                     | Inr _ \<Rightarrow>
                         (case logActivity e s3 (Str userId) ''reward_claim''
                                 (''Claimed '' @ title reward) (- points_required reward)
                                 Null (Str rewardId) of
                            (Inl x, s4) \<Rightarrow> (Inl x, s4)
                          | (Inr _, s4) \<Rightarrow> (Inr (data ins), s4))))))"

definition claimReward ::
  "env \<Rightarrow> store \<Rightarrow> uuid \<Rightarrow> uuid \<Rightarrow> (js_error + claim option) \<times> store" where
  "claimReward e s userId rewardId =
     (case claim_read e s userId rewardId of
        Inl x \<Rightarrow> (Inl x, s)
      | Inr (user, reward) \<Rightarrow> claim_commit e s userId rewardId user reward)"

subsection \<open>Runs of several calls\<close>

text \<open>Calls handled one after the other, each with its own replies from the store.\<close>

fun run_claims :: "store \<Rightarrow> (env \<times> uuid \<times> uuid) list \<Rightarrow> store" where
  "run_claims s [] = s"
| "run_claims s ((e, userId, rewardId) # calls) =
     run_claims (snd (claimReward e s userId rewardId)) calls"

text \<open>
  Two calls whose handlers interleave at the \<open>await\<close> between the checks and the
  insert: both read the store as it is, then the first commits, then the second commits
  from what it read before.
\<close>

definition two_claims_interleaved ::
  "env \<Rightarrow> env \<Rightarrow> store \<Rightarrow> uuid \<Rightarrow> uuid \<Rightarrow> uuid \<Rightarrow> uuid \<Rightarrow>
     (js_error + claim option) \<times> (js_error + claim option) \<times> store" where
  "two_claims_interleaved ea eb s userA rewardA userB rewardB =
     (let readA = claim_read ea s userA rewardA;
          readB = claim_read eb s userB rewardB
      in
        (case (case readA of
                 Inl x \<Rightarrow> (Inl x, s)
               | Inr (user, reward) \<Rightarrow> claim_commit ea s userA rewardA user reward) of
           (resA, s1) \<Rightarrow>
             (case (case readB of
                      Inl x \<Rightarrow> (Inl x, s1)
                    | Inr (user, reward) \<Rightarrow> claim_commit eb s1 userB rewardB user reward) of
                (resB, s2) \<Rightarrow> (resA, resB, s2))))"

text \<open>The store carries out every call of one request.\<close>

definition accepts :: "env \<Rightarrow> bool" where
  "accepts e \<longleftrightarrow>
     user_read e = None \<and> reward_read e = None \<and> claim_insert e = None \<and>
     user_write e = None \<and> stock_write e = None"

text \<open>The two ledger invariants, for every user and every reward of the store.\<close>

definition nonneg :: "store \<Rightarrow> bool" where
  "nonneg s \<longleftrightarrow>
     (\<forall>uid u. users s uid = Some u \<longrightarrow> 0 \<le> points u) \<and>
     (\<forall>rid r. rewards s rid = Some r \<longrightarrow> 0 \<le> stock r)"

section \<open>The database helper of the authentication controller\<close>

text \<open>
  \<^verbatim>\<open>src/backend/config/database.js\<close>. Users are objects here: the rows of the
  \<open>users\<close> table when a client exists, the array \<open>mockUsers\<close> otherwise.
  \<open>getUserById\<close> and \<open>updateUser\<close> of this module carry the prefix \<open>db_\<close>, since
  the helper of the claim engine has functions of the same names.
\<close>

record auth_db = log_state +
  users_table :: "obj list"
  mockUsers :: "obj list"

text \<open>\<open>.single()\<close> over the rows a filter selects: exactly one row, or \<open>PGRST116\<close>.\<close>

definition single_rows :: "pg_error option \<Rightarrow> 'a list \<Rightarrow> 'a response" where
  "single_rows reply rows = single reply (case rows of [r] \<Rightarrow> Some r | _ \<Rightarrow> None)"

text \<open>
  \<open>createUser(userData)\<close>. The mock object is \<open>{ id, ...userData, created_at,
  updated_at }\<close>; the stored row is the columns the store fills in, overridden by the
  columns supplied.
\<close>

definition createUser :: "env \<Rightarrow> auth_db \<Rightarrow> obj \<Rightarrow> (js_error + obj option) \<times> auth_db" where
  "createUser e db userData =
     (if \<not> supabase db then
        let newUser = ([''id'' \<mapsto> Str (''user-'' @ date_now e)] ++ userData)
                        (''created_at'' \<mapsto> Str (now e), ''updated_at'' \<mapsto> Str (now e))
        in (Inr (Some newUser), db\<lparr>mockUsers := mockUsers db @ [newUser]\<rparr>)
      else
        (case user_write e of
           Some err \<Rightarrow> (Inl (StoreError err), db)
         | None \<Rightarrow>
             let row = [''id'' \<mapsto> Str (new_id e), ''created_at'' \<mapsto> Str (now e),
                        ''updated_at'' \<mapsto> Str (now e)] ++ userData
             in (Inr (Some row), db\<lparr>users_table := users_table db @ [row]\<rparr>)))"

definition getUserByEmail :: "env \<Rightarrow> auth_db \<Rightarrow> string \<Rightarrow> js_error + obj option" where
  "getUserByEmail e db mail =
     (if \<not> supabase db then Inr (find (\<lambda>user. field user ''email'' = Str mail) (mockUsers db))
      else
        let r = single_rows (user_read e)
                  (filter (\<lambda>row. field row ''email'' = Str mail) (users_table db)) in
        (case error r of
           Some err \<Rightarrow> if pg_code err \<noteq> ''PGRST116'' then Inl (StoreError err) else Inr (data r)
         | None \<Rightarrow> Inr (data r)))"

definition db_getUserById :: "env \<Rightarrow> auth_db \<Rightarrow> uuid \<Rightarrow> js_error + obj option" where
  "db_getUserById e db ident =
     (if \<not> supabase db then Inr (find (\<lambda>user. field user ''id'' = Str ident) (mockUsers db))
      else
        let r = single_rows (user_read e)
                  (filter (\<lambda>row. field row ''id'' = Str ident) (users_table db)) in
        (case error r of Some err \<Rightarrow> Inl (StoreError err) | None \<Rightarrow> Inr (data r)))"

text \<open>
  \<open>mockUsers[userIndex] = { ...mockUsers[userIndex], ...updates, updated_at }\<close> at the
  first index \<open>findIndex\<close> yields.
\<close>

fun replace_first :: "('a \<Rightarrow> bool) \<Rightarrow> ('a \<Rightarrow> 'a) \<Rightarrow> 'a list \<Rightarrow> ('a \<times> 'a list) option" where
  "replace_first p f [] = None"
| "replace_first p f (x # xs) =
     (if p x then Some (f x, f x # xs)
      else (case replace_first p f xs of
              None \<Rightarrow> None
            | Some (y, ys) \<Rightarrow> Some (y, x # ys)))"

definition db_updateUser ::
  "env \<Rightarrow> auth_db \<Rightarrow> uuid \<Rightarrow> obj \<Rightarrow> (js_error + obj option) \<times> auth_db" where
  "db_updateUser e db ident updates =
     (let change = (\<lambda>row. (row ++ updates)(''updated_at'' \<mapsto> Str (now e))) in
      if \<not> supabase db then
        (case replace_first (\<lambda>user. field user ''id'' = Str ident) change (mockUsers db) of
           Some (user, us) \<Rightarrow> (Inr (Some user), db\<lparr>mockUsers := us\<rparr>)
         | None \<Rightarrow> (Inl (Error ''User not found''), db))
      else
        (case user_write e of
           Some err \<Rightarrow> (Inl (StoreError err), db)
         | None \<Rightarrow>
             let tbl = map (\<lambda>row. if field row ''id'' = Str ident then change row else row)
                         (users_table db);
                 r = single_rows None (filter (\<lambda>row. field row ''id'' = Str ident) tbl)
             in (case error r of
                   Some err \<Rightarrow> (Inl (StoreError err), db\<lparr>users_table := tbl\<rparr>)
                 | None \<Rightarrow> (Inr (data r), db\<lparr>users_table := tbl\<rparr>))))"

section \<open>The authentication controller\<close>

text \<open>
  \<^verbatim>\<open>src/backend/controllers/auth.js\<close>. The fields of \<open>req.body\<close> are strings or
  absent; \<open>req.user.userId\<close> is the identifier the token carries. A response is the
  status and the JSON body handed to \<open>res.json\<close>.
\<close>

record credentials =
  username :: "string option"
  email :: "string option"
  password :: "secret option"

record profile_update =
  name :: "string option"
  avatar :: "string option"

datatype payload =
    ErrorJson string
  | AuthJson string string obj
  | UserJson obj

record http_response =
  status :: nat
  body :: payload

text \<open>The user object of a response body, when it has one.\<close>

fun returned_user :: "payload \<Rightarrow> obj option" where
  "returned_user (ErrorJson msg) = None"
| "returned_user (AuthJson msg token user) = Some user"
| "returned_user (UserJson user) = Some user"

text \<open>\<open>const { password: _, ...userWithoutPassword } = user\<close>.\<close>

definition without_password :: "obj \<Rightarrow> obj" where
  "without_password user = user |` (- {''password''})"

text \<open>The \<open>catch\<close> of a handler: a console line and status 500.\<close>

definition caught :: "string \<Rightarrow> string \<Rightarrow> auth_db \<Rightarrow> http_response \<times> auth_db" where
  "caught line msg db =
     (\<lparr>status = 500, body = ErrorJson msg\<rparr>, db\<lparr>console := console db @ [line]\<rparr>)"

definition token_for :: "env \<Rightarrow> obj \<Rightarrow> string" where
  "token_for e user =
     jwt_sign e [''userId'' \<mapsto> field user ''id'', ''email'' \<mapsto> field user ''email'',
                 ''role'' \<mapsto> field user ''role'', ''name'' \<mapsto> field user ''name'']"

definition register :: "env \<Rightarrow> auth_db \<Rightarrow> credentials \<Rightarrow> http_response \<times> auth_db" where
  "register e db req =
     (case (username req, email req, password req) of
        (Some uname, Some mail, Some pw) \<Rightarrow>
          if uname = [] \<or> mail = [] \<or> pw = [] then
            (\<lparr>status = 400, body = ErrorJson ''Username, email, and password are required''\<rparr>, db)
          else if length pw < 6 then
            (\<lparr>status = 400, body = ErrorJson ''Password must be at least 6 characters''\<rparr>, db)
          else
            (case getUserByEmail e db mail of
               Inl x \<Rightarrow> caught ''Registration error:'' ''Registration failed. Please try again.'' db
             | Inr (Some existingUser) \<Rightarrow>
                 (\<lparr>status = 400, body = ErrorJson ''User already exists with this email''\<rparr>, db)
             | Inr None \<Rightarrow>
                 let hashedPassword = bcrypt_hash e pw 12;
                     userData = [''name'' \<mapsto> Str (trim e uname),
                                 ''email'' \<mapsto> Str (trim e (toLowerCase e mail)),
                                 ''password'' \<mapsto> Str hashedPassword,
                                 ''role'' \<mapsto> Str ''user'',
                                 ''points'' \<mapsto> Num 100]
                 in
                   (case createUser e db userData of
                      (Inl x, db1) \<Rightarrow>
                        caught ''Registration error:'' ''Registration failed. Please try again.'' db1
                    | (Inr None, db1) \<Rightarrow>
                        caught ''Registration error:'' ''Registration failed. Please try again.'' db1
                    | (Inr (Some user), db1) \<Rightarrow>
                        (case logActivity e db1 (field user ''id'') ''registration''
                                ''User registered'' 100 Null Null of
                           (Inl x, db2) \<Rightarrow>
                             caught ''Registration error:''
                               ''Registration failed. Please try again.'' db2
                         | (Inr _, db2) \<Rightarrow>
                             (\<lparr>status = 201,
                               body = AuthJson ''User registered successfully'' (token_for e user)
                                        (without_password user)\<rparr>, db2))))
      | _ \<Rightarrow>
          (\<lparr>status = 400, body = ErrorJson ''Username, email, and password are required''\<rparr>, db))"

text \<open>
  \<open>bcrypt.compare(password, user.password)\<close> rejects when the stored hash is not a
  string; the handler's \<open>catch\<close> answers 500.
\<close>

definition login :: "env \<Rightarrow> auth_db \<Rightarrow> credentials \<Rightarrow> http_response \<times> auth_db" where
  "login e db req =
     (case (email req, password req) of
        (Some mail, Some pw) \<Rightarrow>
          if mail = [] \<or> pw = [] then
            (\<lparr>status = 400, body = ErrorJson ''Email and password are required''\<rparr>, db)
          else
            (case getUserByEmail e db (trim e (toLowerCase e mail)) of
               Inl x \<Rightarrow> caught ''Login error:'' ''Login failed. Please try again.'' db
             | Inr None \<Rightarrow>
                 (\<lparr>status = 401, body = ErrorJson ''Invalid email or password''\<rparr>, db)
             | Inr (Some user) \<Rightarrow>
                 (case field user ''password'' of
                    Str hash \<Rightarrow>
                      if \<not> bcrypt_compare e pw hash then
                        (\<lparr>status = 401, body = ErrorJson ''Invalid email or password''\<rparr>, db)
                      else
                        (case logActivity e db (field user ''id'') ''login'' ''User logged in''
                                0 Null Null of
                           (Inl x, db1) \<Rightarrow>
                             caught ''Login error:'' ''Login failed. Please try again.'' db1
                         | (Inr _, db1) \<Rightarrow>
                             (\<lparr>status = 200,
                               body = AuthJson ''Login successful'' (token_for e user)
                                        (without_password user)\<rparr>, db1))
                  | _ \<Rightarrow> caught ''Login error:'' ''Login failed. Please try again.'' db))
      | _ \<Rightarrow> (\<lparr>status = 400, body = ErrorJson ''Email and password are required''\<rparr>, db))"

definition getProfile :: "env \<Rightarrow> auth_db \<Rightarrow> uuid \<Rightarrow> http_response \<times> auth_db" where
  "getProfile e db userId =
     (case db_getUserById e db userId of
        Inl x \<Rightarrow> caught ''Get profile error:'' ''Failed to get profile'' db
      | Inr None \<Rightarrow> (\<lparr>status = 404, body = ErrorJson ''User not found''\<rparr>, db)
      | Inr (Some user) \<Rightarrow> (\<lparr>status = 200, body = UserJson (without_password user)\<rparr>, db))"

text \<open>
  \<open>updateProfile\<close>: the update, then the activity entry, then the destructuring of the
  updated user (which throws on \<open>null\<close>).
\<close>

definition updateProfile ::
  "env \<Rightarrow> auth_db \<Rightarrow> uuid \<Rightarrow> profile_update \<Rightarrow> http_response \<times> auth_db" where
  "updateProfile e db userId req =
     (let updates =
            (case name req of
               Some n \<Rightarrow> if n = [] then Map.empty else [''name'' \<mapsto> Str (trim e n)]
             | None \<Rightarrow> Map.empty) ++
            (case avatar req of
               Some a \<Rightarrow> if a = [] then Map.empty else [''avatar'' \<mapsto> Str a]
             | None \<Rightarrow> Map.empty)
      in
        (case db_updateUser e db userId updates of
           (Inl x, db1) \<Rightarrow> caught ''Update profile error:'' ''Failed to update profile'' db1
         | (Inr updatedUser, db1) \<Rightarrow>
             (case logActivity e db1 (Str userId) ''profile_update'' ''Profile updated''
                     0 Null Null of
                (Inl x, db2) \<Rightarrow> caught ''Update profile error:'' ''Failed to update profile'' db2
              | (Inr _, db2) \<Rightarrow>
                  (case updatedUser of
                     None \<Rightarrow> caught ''Update profile error:'' ''Failed to update profile'' db2
                   | Some user \<Rightarrow>
                       (\<lparr>status = 200, body = UserJson (without_password user)\<rparr>, db2)))))"

section \<open>Concrete inputs\<close>

text \<open>A store, a request environment in which every call is carried out, and some users.\<close>

definition env0 :: env where
  "env0 =
     \<lparr>user_read = None, reward_read = None, claim_insert = None, user_write = None,
      stock_write = None, activity_insert = Accepted, now = ''2025-09-15T10:00:00.000Z'',
      date_now = ''1757930400000'', new_id = ''7f3c'',
      bcrypt_hash = (\<lambda>p rounds. ''$2a$12$fresh''),
      bcrypt_compare = (\<lambda>p h. h = ''$2a$12$alice'' \<and> p = [0x73, 0x65, 0x63, 0x72, 0x65, 0x74, 0x31]),
      jwt_sign = (\<lambda>payload. ''jwt''), trim = (\<lambda>x. x), toLowerCase = (\<lambda>x. x)\<rparr>"

definition store0 :: store where
  "store0 =
     \<lparr>supabase = True, user_activity = [], console = [],
      users = [''u1'' \<mapsto> \<lparr>points = 500, updated_at = ''t0''\<rparr>,
               ''u2'' \<mapsto> \<lparr>points = 700, updated_at = ''t0''\<rparr>],
      rewards = [''r1'' \<mapsto> \<lparr>title = ''Gaming Headset'', points_required = 500, stock = 1,
                            is_active = True\<rparr>,
                 ''r2'' \<mapsto> \<lparr>title = ''Mouse Pad'', points_required = 600, stock = 0,
                            is_active = False\<rparr>,
                 ''r3'' \<mapsto> \<lparr>title = ''Retired Skin'', points_required = 100, stock = 4,
                            is_active = False\<rparr>],
      user_rewards = []\<rparr>"


text \<open>The secret \<open>secret1\<close> and a user who registered with it.\<close>

definition secret1 :: secret where
  "secret1 = [0x73, 0x65, 0x63, 0x72, 0x65, 0x74, 0x31]"

definition alice :: obj where
  "alice = [''id'' \<mapsto> Str ''a1'', ''name'' \<mapsto> Str ''alice'',
            ''email'' \<mapsto> Str ''alice@example.com'', ''password'' \<mapsto> Str ''$2a$12$alice'',
            ''role'' \<mapsto> Str ''user'', ''points'' \<mapsto> Num 100]"

definition auth0 :: auth_db where
  "auth0 = \<lparr>supabase = True, user_activity = [], console = [],
            users_table = [alice], mockUsers = []\<rparr>"

definition bob_request :: credentials where
  "bob_request = \<lparr>username = Some ''bob'', email = Some ''bob@example.com'',
                  password = Some secret1\<rparr>"



section \<open>Properties of the claim engine\<close>

subsection \<open>Auxiliary facts\<close>

lemmas claim_defs = claimReward_def claim_read_def claim_reads_def claim_checks_def
  claim_commit_def insert_user_reward_def updateUser_def update_stock_def logActivity_def
  insert_activity_def getUserById_def single_def Let_def

text \<open>
  \<open>logActivity\<close> always returns: neither a missing client, nor an error in the reply,
  nor a rejected insert makes it throw.
\<close>

lemma logActivity_returns: "\<exists>d. fst (logActivity e s uid ty ds pc t r) = Inr d"
  by (simp add: logActivity_def insert_activity_def split: outcome.splits prod.splits sum.splits)

text \<open>
  What a passed read phase has established.
\<close>

lemma claim_read_Inr:
  assumes "claim_read e s uid rid = Inr (u, r)"
  shows "supabase s \<and> users s uid = Some u \<and> rewards s rid = Some r \<and>
         points_required r \<le> points u \<and> 0 < stock r \<and>
         user_read e = None \<and> reward_read e = None"
  using assms
  by (auto simp: claim_read_def claim_reads_def claim_checks_def getUserById_def single_def Let_def
      split: option.splits if_splits sum.splits)

lemma claim_read_ok:
  assumes "supabase s" and "user_read e = None" and "reward_read e = None"
    and "users s uid = Some u" and "rewards s rid = Some r"
    and "points_required r \<le> points u" and "0 < stock r"
  shows "claim_read e s uid rid = Inr (u, r)"
  using assms
  by (simp add: claim_read_def claim_reads_def claim_checks_def getUserById_def single_def)

text \<open>
  The commit phase, by the replies of the store.
\<close>

lemma claim_commit_refused:
  assumes "claim_insert e = Some err"
  shows "claim_commit e s uid rid u r = (Inl (StoreError err), s)"
  using assms by (simp add: claim_commit_def insert_user_reward_def)

lemma claim_commit_result:
  assumes "supabase s" and "users s uid = Some u0"
  shows "fst (claim_commit e s uid rid u r) =
           (case claim_insert e of
              Some err \<Rightarrow> Inl (StoreError err)
            | None \<Rightarrow>
                (case user_write e of
                   Some err \<Rightarrow> Inl (StoreError err)
                 | None \<Rightarrow> Inr (Some \<lparr>user_id = uid, reward_id = rid\<rparr>)))"
  using assms
  by (simp add: claim_commit_def insert_user_reward_def updateUser_def Let_def
      logActivity_def insert_activity_def
      split: option.splits outcome.splits)

lemma claim_commit_ok:
  assumes "supabase s" and "accepts e" and "users s uid = Some u0" and "rewards s rid = Some r0"
  shows "fst (claim_commit e s uid rid u r) = Inr (Some \<lparr>user_id = uid, reward_id = rid\<rparr>) \<and>
         supabase (snd (claim_commit e s uid rid u r)) \<and>
         users (snd (claim_commit e s uid rid u r)) =
           (users s)(uid \<mapsto> u0\<lparr>points := points u - points_required r, updated_at := now e\<rparr>) \<and>
         rewards (snd (claim_commit e s uid rid u r)) =
           (rewards s)(rid \<mapsto> r0\<lparr>stock := stock r - 1\<rparr>) \<and>
         user_rewards (snd (claim_commit e s uid rid u r)) =
           user_rewards s @ [\<lparr>user_id = uid, reward_id = rid\<rparr>]"
  using assms
  by (simp add: claim_commit_def insert_user_reward_def updateUser_def update_stock_def Let_def
      logActivity_def insert_activity_def accepts_def
      split: option.splits outcome.splits)

lemma claim_commit_tables:
  assumes "supabase s" and "users s uid = Some u0" and "rewards s rid = Some r0"
  shows "(users (snd (claim_commit e s uid rid u r)) = users s \<or>
          users (snd (claim_commit e s uid rid u r)) =
            (users s)(uid \<mapsto> u0\<lparr>points := points u - points_required r, updated_at := now e\<rparr>)) \<and>
         (rewards (snd (claim_commit e s uid rid u r)) = rewards s \<or>
          rewards (snd (claim_commit e s uid rid u r)) =
            (rewards s)(rid \<mapsto> r0\<lparr>stock := stock r - 1\<rparr>))"
  using assms
  by (simp add: claim_commit_def insert_user_reward_def updateUser_def update_stock_def Let_def
      logActivity_def insert_activity_def
      split: option.splits outcome.splits)

lemma claimReward_nonneg:
  assumes "nonneg s"
  shows "nonneg (snd (claimReward e s uid rid))"
proof (cases "claim_read e s uid rid")
  case (Inl y)
  with assms show ?thesis by (simp add: claimReward_def)
next
  case (Inr ur)
  obtain u r where ur: "ur = (u, r)" by (cases ur)
  from Inr ur have rd: "claim_read e s uid rid = Inr (u, r)" by simp
  from claim_read_Inr [OF rd] have s: "supabase s" and us: "users s uid = Some u"
    and rs: "rewards s rid = Some r" and le: "points_required r \<le> points u" and st: "0 < stock r"
    by simp_all
  let ?s' = "snd (claim_commit e s uid rid u r)"
  from rd have eq: "snd (claimReward e s uid rid) = ?s'" by (simp add: claimReward_def)
  note tb = claim_commit_tables [OF s us rs, of e u r]
  have "\<forall>uid' u'. users ?s' uid' = Some u' \<longrightarrow> 0 \<le> points u'"
    using tb assms le by (auto simp: nonneg_def split: if_splits)
  moreover have "\<forall>rid' r'. rewards ?s' rid' = Some r' \<longrightarrow> 0 \<le> stock r'"
    using tb assms st by (auto simp: nonneg_def split: if_splits)
  ultimately show ?thesis unfolding eq by (simp add: nonneg_def)
qed

text \<open>
  The reply to the activity insert has no part in what the callers report.
\<close>

lemma claim_read_activity:
  "claim_read (e\<lparr>activity_insert := out\<rparr>) s uid rid = claim_read e s uid rid"
  by (simp add: claim_read_def claim_reads_def getUserById_def Let_def
      split: sum.splits option.splits)

lemma claim_commit_activity:
  "fst (claim_commit (e\<lparr>activity_insert := out\<rparr>) s uid rid u r) = fst (claim_commit e s uid rid u r)"
  by (simp add: claim_commit_def insert_user_reward_def updateUser_def update_stock_def Let_def
      logActivity_def insert_activity_def
      split: option.splits outcome.splits sum.splits)

subsection \<open>Effects of a successful claim\<close>

text \<open>
  Claim C1, as the code has it. Every successful \<open>claimReward(userId, rewardId)\<close>
  that is handled on its own, with no write of another call between its reads and its
  writes, lowers the user's points by exactly \<open>points_required\<close> and appends exactly
  one Claim record linking the user and the reward. The stock is lowered by exactly 1 when
  the store carries out the stock write. Exactly one Activity Entry of kind
  \<open>reward_claim\<close>, with the negated cost as points delta and a description naming the
  reward, is appended when the store accepts the append, and none otherwise.
\<close>

theorem claimReward_success_effects:
  assumes "claimReward e s uid rid = (Inr c, s')"
  shows "\<exists>u r. users s uid = Some u \<and> rewards s rid = Some r \<and>
           c = Some \<lparr>user_id = uid, reward_id = rid\<rparr> \<and>
           map_option points (users s' uid) = Some (points u - points_required r) \<and>
           user_rewards s' = user_rewards s @ [\<lparr>user_id = uid, reward_id = rid\<rparr>] \<and>
           (stock_write e = None \<longrightarrow> map_option stock (rewards s' rid) = Some (stock r - 1)) \<and>
           (activity_insert e = Accepted \<longrightarrow>
              user_activity s' = user_activity s @
                [\<lparr>act_user_id = Str uid, tournament_id = Null, act_reward_id = Str rid,
                  activity_type = ''reward_claim'', description = ''Claimed '' @ title r,
                  points_change = - points_required r\<rparr>]) \<and>
           (activity_insert e \<noteq> Accepted \<longrightarrow> user_activity s' = user_activity s)"
  using assms
  by (auto simp: claim_defs Let_def split: option.splits if_splits sum.splits prod.splits outcome.splits)

theorem claimReward_success_effects_witness:
  "fst (claimReward env0 store0 ''u1'' ''r1'') = Inr (Some \<lparr>user_id = ''u1'', reward_id = ''r1''\<rparr>) \<and>
   map_option points (users (snd (claimReward env0 store0 ''u1'' ''r1'')) ''u1'') = Some 0 \<and>
   map_option stock (rewards (snd (claimReward env0 store0 ''u1'' ''r1'')) ''r1'') = Some 0 \<and>
   user_rewards (snd (claimReward env0 store0 ''u1'' ''r1'')) = [\<lparr>user_id = ''u1'', reward_id = ''r1''\<rparr>] \<and>
   user_activity (snd (claimReward env0 store0 ''u1'' ''r1'')) =
     [\<lparr>act_user_id = Str ''u1'', tournament_id = Null, act_reward_id = Str ''r1'',
       activity_type = ''reward_claim'', description = ''Claimed Gaming Headset'',
       points_change = - 500\<rparr>]"
proof -
  have res: "fst (claimReward env0 store0 ''u1'' ''r1'') =
          Inr (Some \<lparr>user_id = ''u1'', reward_id = ''r1''\<rparr>)"
    by (simp add: claim_defs env0_def store0_def)
  then have run: "claimReward env0 store0 ''u1'' ''r1'' =
          (Inr (Some \<lparr>user_id = ''u1'', reward_id = ''r1''\<rparr>),
           snd (claimReward env0 store0 ''u1'' ''r1''))"
    by (simp add: prod_eq_iff)
  have u: "users store0 ''u1'' = Some \<lparr>points = 500, updated_at = ''t0''\<rparr>"
    by (simp add: store0_def)
  have r: "rewards store0 ''r1'' =
      Some \<lparr>title = ''Gaming Headset'', points_required = 500, stock = 1, is_active = True\<rparr>"
    by (simp add: store0_def)
  have e: "stock_write env0 = None" "activity_insert env0 = Accepted"
    by (simp_all add: env0_def)
  have l: "user_activity store0 = []" "user_rewards store0 = []"
    by (simp_all add: store0_def)
  from claimReward_success_effects [OF run] res u r e l show ?thesis
    by auto
qed

text \<open>
  The claim with "every successful call creates one Activity Entry" does not hold: when
  the store refuses the append, \<open>logActivity\<close> writes a console line and the call still
  succeeds, with no entry.
\<close>

theorem claimReward_success_without_activity:
  "fst (claimReward (env0\<lparr>activity_insert := Rejected (PgError ''23503'')\<rparr>) store0 ''u1'' ''r1'')
     = Inr (Some \<lparr>user_id = ''u1'', reward_id = ''r1''\<rparr>) \<and>
   user_activity (snd (claimReward (env0\<lparr>activity_insert := Rejected (PgError ''23503'')\<rparr>)
      store0 ''u1'' ''r1'')) = user_activity store0"
  by (simp add: claim_defs env0_def store0_def)

subsection \<open>Failing claims\<close>

text \<open>
  Claim C2, as the code has it. A failing \<open>claimReward\<close> call leaves the whole store
  unchanged (points, stock, Claim records, Activity Entries) unless the failure is the
  refused points write of \<open>updateUser\<close>: every other failure comes before the first
  write is carried out.
\<close>

theorem claimReward_failure_no_mutation:
  assumes "fst (claimReward e s uid rid) = Inl x" and "user_write e = None"
  shows "snd (claimReward e s uid rid) = s"
proof (cases "claim_read e s uid rid")
  case (Inl y)
  then show ?thesis by (simp add: claimReward_def)
next
  case (Inr ur)
  obtain u r where ur: "ur = (u, r)" by (cases ur)
  from Inr ur have rd: "claim_read e s uid rid = Inr (u, r)" by simp
  from claim_read_Inr [OF rd] have s: "supabase s" and us: "users s uid = Some u" by simp_all
  from assms(1) rd have "fst (claim_commit e s uid rid u r) = Inl x"
    by (simp add: claimReward_def)
  with claim_commit_result [OF s us, of e rid u r] assms(2)
  obtain err where "claim_insert e = Some err"
    by (auto split: option.splits)
  from claim_commit_refused [OF this] rd show ?thesis
    by (simp add: claimReward_def)
qed

theorem claimReward_failure_no_mutation_witness:
  "fst (claimReward env0 store0 ''u1'' ''r2'') = Inl (Error ''Insufficient points'') \<and>
   user_write env0 = None \<and> snd (claimReward env0 store0 ''u1'' ''r2'') = store0"
proof -
  have a: "fst (claimReward env0 store0 ''u1'' ''r2'') = Inl (Error ''Insufficient points'')"
    by (simp add: claim_defs env0_def store0_def)
  have b: "user_write env0 = None" by (simp add: env0_def)
  from a b claimReward_failure_no_mutation [OF a b] show ?thesis by simp
qed

text \<open>
  A refused points write fails the call after the Claim record has been inserted and
  the stock lowered: the call fails, the Claim record stays, the stock is 0, the points
  are as before.
\<close>

theorem claimReward_failure_after_insert:
  "fst (claimReward (env0\<lparr>user_write := Some (PgError ''57014'')\<rparr>) store0 ''u1'' ''r1'')
     = Inl (StoreError (PgError ''57014'')) \<and>
   user_rewards (snd (claimReward (env0\<lparr>user_write := Some (PgError ''57014'')\<rparr>) store0 ''u1'' ''r1''))
     = [\<lparr>user_id = ''u1'', reward_id = ''r1''\<rparr>] \<and>
   user_rewards store0 = [] \<and>
   map_option stock (rewards (snd (claimReward (env0\<lparr>user_write := Some (PgError ''57014'')\<rparr>)
      store0 ''u1'' ''r1'')) ''r1'') = Some 0 \<and>
   map_option stock (rewards store0 ''r1'') = Some 1 \<and>
   map_option points (users (snd (claimReward (env0\<lparr>user_write := Some (PgError ''57014'')\<rparr>)
      store0 ''u1'' ''r1'')) ''u1'') = Some 500"
  by (simp add: claim_defs env0_def store0_def)

subsection \<open>Inactive rewards\<close>

text \<open>
  Claim C3 asks that a claim against an existing but inactive reward fails.
  \<open>claimReward\<close> never reads \<open>is_active\<close>: the reward \<open>r3\<close> is inactive, and the
  claim succeeds, taking 100 points and one unit of stock.
\<close>

theorem claimReward_inactive_reward_succeeds:
  "map_option is_active (rewards store0 ''r3'') = Some False \<and>
   fst (claimReward env0 store0 ''u1'' ''r3'') = Inr (Some \<lparr>user_id = ''u1'', reward_id = ''r3''\<rparr>) \<and>
   map_option points (users (snd (claimReward env0 store0 ''u1'' ''r3'')) ''u1'') = Some 400 \<and>
   map_option stock (rewards (snd (claimReward env0 store0 ''u1'' ''r3'')) ''r3'') = Some 3"
  by (simp add: claim_defs env0_def store0_def)

subsection \<open>Two claims on the last unit\<close>

text \<open>
  Claim C4, as the code has it. The commit phase has no compare-and-set and no retry: on
  any store that carries out its calls it succeeds and writes the points and the stock
  computed from the values read earlier, whatever the rows hold by then. Two calls for
  the same reward with stock 1, by two users with enough points, handled one after the
  other: the first succeeds, the second fails with \<open>Reward out of stock\<close>, the stock
  ends at 0 and one Claim record is added.
\<close>

theorem two_claims_in_sequence:
  assumes "supabase s" and "accepts ea" and "accepts eb"
    and "rewards s rid = Some r" and "stock r = 1"
    and "users s ua = Some a" and "users s ub = Some b" and "ua \<noteq> ub"
    and "points_required r \<le> points a" and "points_required r \<le> points b"
  shows "fst (claimReward ea s ua rid) = Inr (Some \<lparr>user_id = ua, reward_id = rid\<rparr>) \<and>
         fst (claimReward eb (snd (claimReward ea s ua rid)) ub rid) =
           Inl (Error ''Reward out of stock'') \<and>
         map_option stock
           (rewards (snd (claimReward eb (snd (claimReward ea s ua rid)) ub rid)) rid) = Some 0 \<and>
         user_rewards (snd (claimReward eb (snd (claimReward ea s ua rid)) ub rid)) =
           user_rewards s @ [\<lparr>user_id = ua, reward_id = rid\<rparr>] \<and>
         (\<forall>s' u0 r0 u' r'.
            supabase s' \<and> users s' ua = Some u0 \<and> rewards s' rid = Some r0 \<longrightarrow>
              fst (claim_commit ea s' ua rid u' r') =
                Inr (Some \<lparr>user_id = ua, reward_id = rid\<rparr>) \<and>
              map_option points (users (snd (claim_commit ea s' ua rid u' r')) ua) =
                Some (points u' - points_required r') \<and>
              map_option stock (rewards (snd (claim_commit ea s' ua rid u' r')) rid) =
                Some (stock r' - 1))"
proof -
  from assms have ra: "claim_read ea s ua rid = Inr (a, r)"
    by (intro claim_read_ok) (simp_all add: accepts_def)
  then have A: "claimReward ea s ua rid = claim_commit ea s ua rid a r"
    by (simp add: claimReward_def)
  note c = claim_commit_ok [OF assms(1) assms(2) assms(6) assms(4), of a r]
  let ?s1 = "snd (claimReward ea s ua rid)"
  from c A assms have s1: "supabase ?s1" "users ?s1 ub = Some b"
      "rewards ?s1 rid = Some (r\<lparr>stock := 0\<rparr>)"
      "user_rewards ?s1 = user_rewards s @ [\<lparr>user_id = ua, reward_id = rid\<rparr>]"
    by simp_all
  from s1 assms(3) assms(10) have rb: "claim_read eb ?s1 ub rid = Inl (Error ''Reward out of stock'')"
    by (simp add: claim_read_def claim_reads_def claim_checks_def getUserById_def single_def
        accepts_def)
  then have B: "claimReward eb ?s1 ub rid = (Inl (Error ''Reward out of stock''), ?s1)"
    by (simp add: claimReward_def)
  have unconditional: "\<forall>s' u0 r0 u' r'.
      supabase s' \<and> users s' ua = Some u0 \<and> rewards s' rid = Some r0 \<longrightarrow>
        fst (claim_commit ea s' ua rid u' r') =
          Inr (Some \<lparr>user_id = ua, reward_id = rid\<rparr>) \<and>
        map_option points (users (snd (claim_commit ea s' ua rid u' r')) ua) =
          Some (points u' - points_required r') \<and>
        map_option stock (rewards (snd (claim_commit ea s' ua rid u' r')) rid) =
          Some (stock r' - 1)"
  proof (intro allI impI)
    fix s' :: store and u0 r0 u' r'
    assume h: "supabase s' \<and> users s' ua = Some u0 \<and> rewards s' rid = Some r0"
    then have "supabase s'" "users s' ua = Some u0" "rewards s' rid = Some r0" by simp_all
    from claim_commit_ok [OF this(1) assms(2) this(2) this(3), of u' r']
    show "fst (claim_commit ea s' ua rid u' r') =
          Inr (Some \<lparr>user_id = ua, reward_id = rid\<rparr>) \<and>
        map_option points (users (snd (claim_commit ea s' ua rid u' r')) ua) =
          Some (points u' - points_required r') \<and>
        map_option stock (rewards (snd (claim_commit ea s' ua rid u' r')) rid) =
          Some (stock r' - 1)"
      by simp
  qed
  from c A B s1 unconditional show ?thesis by simp
qed

theorem two_claims_in_sequence_witness:
  "fst (claimReward env0 store0 ''u1'' ''r1'') = Inr (Some \<lparr>user_id = ''u1'', reward_id = ''r1''\<rparr>) \<and>
   fst (claimReward env0 (snd (claimReward env0 store0 ''u1'' ''r1'')) ''u2'' ''r1'') =
     Inl (Error ''Reward out of stock'') \<and>
   map_option stock
     (rewards (snd (claimReward env0 (snd (claimReward env0 store0 ''u1'' ''r1'')) ''u2'' ''r1''))
        ''r1'') = Some 0 \<and>
   user_rewards (snd (claimReward env0 (snd (claimReward env0 store0 ''u1'' ''r1'')) ''u2'' ''r1'')) =
     [\<lparr>user_id = ''u1'', reward_id = ''r1''\<rparr>]"
proof -
  have h: "supabase store0" "accepts env0"
      "rewards store0 ''r1'' =
        Some \<lparr>title = ''Gaming Headset'', points_required = 500, stock = 1, is_active = True\<rparr>"
      "users store0 ''u1'' = Some \<lparr>points = 500, updated_at = ''t0''\<rparr>"
      "users store0 ''u2'' = Some \<lparr>points = 700, updated_at = ''t0''\<rparr>"
      "user_rewards store0 = []"
    by (simp_all add: store0_def env0_def accepts_def)
  from two_claims_in_sequence [OF h(1) h(2) h(2) h(3) _ h(4) h(5)] h(6) show ?thesis
    by simp
qed

text \<open>
  "Never two successes" does not hold. When both handlers have read the stock 1 before
  either writes, both commits succeed: two Claim records for one unit of stock, and the
  stock ends at 0.
\<close>

theorem two_claims_interleaved_both_succeed:
  "two_claims_interleaved env0 env0 store0 ''u1'' ''r1'' ''u2'' ''r1'' =
     (Inr (Some \<lparr>user_id = ''u1'', reward_id = ''r1''\<rparr>),
      Inr (Some \<lparr>user_id = ''u2'', reward_id = ''r1''\<rparr>),
      snd (snd (two_claims_interleaved env0 env0 store0 ''u1'' ''r1'' ''u2'' ''r1''))) \<and>
   map_option stock (rewards store0 ''r1'') = Some 1 \<and>
   map_option stock
     (rewards (snd (snd (two_claims_interleaved env0 env0 store0 ''u1'' ''r1'' ''u2'' ''r1'')))
        ''r1'') = Some 0 \<and>
   user_rewards (snd (snd (two_claims_interleaved env0 env0 store0 ''u1'' ''r1'' ''u2'' ''r1''))) =
     [\<lparr>user_id = ''u1'', reward_id = ''r1''\<rparr>, \<lparr>user_id = ''u2'', reward_id = ''r1''\<rparr>]"
  by (simp add: two_claims_interleaved_def claim_defs env0_def store0_def prod_eq_iff)

subsection \<open>The ledger invariants\<close>

text \<open>
  Claim C5. From a store in which every user's points and every reward's stock are
  non-negative, after every call of any sequence of \<open>claimReward\<close> calls (each with
  any replies of the store, succeeding or failing) they are non-negative again.
\<close>

theorem run_claims_nonneg:
  assumes "nonneg s"
  shows "nonneg (run_claims s (take n calls))"
  using assms
proof (induction calls arbitrary: s n)
  case Nil
  then show ?case by simp
next
  case (Cons c calls)
  obtain e uid rid where c: "c = (e, uid, rid)" by (cases c)
  show ?case
  proof (cases n)
    case 0
    with Cons.prems show ?thesis by simp
  next
    case (Suc m)
    from Cons.prems have "nonneg (snd (claimReward e s uid rid))" by (rule claimReward_nonneg)
    from Cons.IH [OF this] Suc c show ?thesis by simp
  qed
qed

theorem run_claims_nonneg_witness:
  "nonneg store0 \<and>
   nonneg (run_claims store0
     (take 2 [(env0, ''u1'', ''r1''),
              (env0\<lparr>user_write := Some (PgError ''57014'')\<rparr>, ''u2'', ''r3''),
              (env0, ''u2'', ''r1'')]))"
proof -
  have h: "nonneg store0" by (simp add: nonneg_def store0_def)
  from h run_claims_nonneg [OF h] show ?thesis by blast
qed

subsection \<open>The order of the checks\<close>

text \<open>
  Claim C6, as the code has it. With a client, \<open>claimReward\<close> looks at the user
  first: when the read of the user is refused the storage error is rethrown, and when
  the user is absent the call fails, whatever the reward, the balance and the stock are.
  With the user read, the presence of the reward comes next; the one not-found check
  names no entity, its error is \<open>User or reward not found\<close>. Then comes the balance,
  with \<open>Insufficient points\<close>, then the stock, with \<open>Reward out of stock\<close>. These
  three errors are pairwise distinct, and a failing check leaves the store unchanged.
\<close>

theorem claimReward_check_order:
  assumes "supabase s"
  shows "(\<forall>err. user_read e = Some err \<longrightarrow>
            claimReward e s uid rid = (Inl (StoreError err), s)) \<and>
         (user_read e = None \<and> users s uid = None \<longrightarrow>
            (\<exists>x. claimReward e s uid rid = (Inl x, s))) \<and>
         (\<forall>u. user_read e = None \<and> users s uid = Some u \<and>
              (reward_read e \<noteq> None \<or> rewards s rid = None) \<longrightarrow>
            claimReward e s uid rid = (Inl (Error ''User or reward not found''), s)) \<and>
         (\<forall>u r. user_read e = None \<and> users s uid = Some u \<and>
              reward_read e = None \<and> rewards s rid = Some r \<and>
              points u < points_required r \<longrightarrow>
            claimReward e s uid rid = (Inl (Error ''Insufficient points''), s)) \<and>
         (\<forall>u r. user_read e = None \<and> users s uid = Some u \<and>
              reward_read e = None \<and> rewards s rid = Some r \<and>
              points_required r \<le> points u \<and> stock r \<le> 0 \<longrightarrow>
            claimReward e s uid rid = (Inl (Error ''Reward out of stock''), s)) \<and>
         distinct [Error ''User or reward not found'', Error ''Insufficient points'',
                   Error ''Reward out of stock'']"
  using assms
  by (auto simp: claimReward_def claim_read_def claim_reads_def claim_checks_def getUserById_def
      single_def split: option.splits)

theorem claimReward_check_order_witness:
  "(\<exists>x. claimReward env0 store0 ''ghost'' ''nope'' = (Inl x, store0)) \<and>
   claimReward env0 store0 ''u1'' ''nope'' = (Inl (Error ''User or reward not found''), store0) \<and>
   claimReward env0 store0 ''u1'' ''r2'' = (Inl (Error ''Insufficient points''), store0) \<and>
   claimReward env0 store0 ''u2'' ''r2'' = (Inl (Error ''Reward out of stock''), store0)"
proof -
  have h: "supabase store0" "user_read env0 = None" "reward_read env0 = None"
      "users store0 ''ghost'' = None" "rewards store0 ''nope'' = None"
      "users store0 ''u1'' = Some \<lparr>points = 500, updated_at = ''t0''\<rparr>"
      "users store0 ''u2'' = Some \<lparr>points = 700, updated_at = ''t0''\<rparr>"
      "rewards store0 ''r2'' =
         Some \<lparr>title = ''Mouse Pad'', points_required = 600, stock = 0, is_active = False\<rparr>"
    by (simp_all add: store0_def env0_def)
  from claimReward_check_order [OF h(1), of env0 "''ghost''" "''nope''"]
       claimReward_check_order [OF h(1), of env0 "''u1''" "''nope''"]
       claimReward_check_order [OF h(1), of env0 "''u1''" "''r2''"]
       claimReward_check_order [OF h(1), of env0 "''u2''" "''r2''"] h
  show ?thesis by simp
qed

text \<open>
  There is no not-found error for the user and another for the reward. A call for an
  absent user does not fail with a not-found error at all, and a call for an absent
  reward fails with the error of the combined check, which names both entities.
\<close>

theorem claimReward_not_found_not_separate:
  "users store0 ''ghost'' = None \<and>
   fst (claimReward env0 store0 ''ghost'' ''r1'') = Inl (StoreError (PgError ''PGRST116'')) \<and>
   users store0 ''u1'' = Some \<lparr>points = 500, updated_at = ''t0''\<rparr> \<and>
   rewards store0 ''nope'' = None \<and>
   fst (claimReward env0 store0 ''u1'' ''nope'') = Inl (Error ''User or reward not found'')"
  by (simp add: claim_defs env0_def store0_def)

section \<open>Properties of the authentication controller\<close>

subsection \<open>Auxiliary facts\<close>

lemma without_password_password: "without_password user ''password'' = None"
  by (simp add: without_password_def)

lemmas auth_eval = register_def login_def getProfile_def updateProfile_def caught_def
  getUserByEmail_def db_getUserById_def db_updateUser_def createUser_def single_rows_def single_def
  logActivity_def insert_activity_def token_for_def field_def Let_def
  env0_def auth0_def alice_def bob_request_def secret1_def

lemma register_activity:
  "fst (register (e\<lparr>activity_insert := out\<rparr>) db req) = fst (register e db req)"
  by (simp add: register_def getUserByEmail_def createUser_def caught_def token_for_def Let_def
      logActivity_def insert_activity_def
      split: option.splits outcome.splits sum.splits)

lemma login_activity:
  "fst (login (e\<lparr>activity_insert := out\<rparr>) db req) = fst (login e db req)"
  by (simp add: login_def getUserByEmail_def caught_def token_for_def Let_def
      logActivity_def insert_activity_def
      split: option.splits outcome.splits sum.splits jsval.splits)

subsection \<open>Registration\<close>

text \<open>
  Claim C7, as the code has it. A registration with all fields present, a secret of at
  least 6 units and an identity that \<open>getUserByEmail\<close> does not find, whose insert the
  store carries out, answers 201; the created user has the points balance 100, in the
  store and in the response. \<open>logActivity\<close> is called with kind \<open>registration\<close> and
  points delta 100: that entry is recorded when a client exists and the store accepts
  the append, and no entry is recorded otherwise.
\<close>

theorem register_welcome_bonus:
  assumes "username req = Some uname" and "uname \<noteq> []"
    and "email req = Some mail" and "mail \<noteq> []"
    and "password req = Some pw" and "6 \<le> length pw"
    and "getUserByEmail e db mail = Inr None"
    and "supabase db \<longrightarrow> user_write e = None"
  shows "\<exists>user db'.
           register e db req =
             (\<lparr>status = 201,
               body = AuthJson ''User registered successfully'' (token_for e user)
                        (without_password user)\<rparr>, db') \<and>
           field user ''points'' = Num 100 \<and>
           field (without_password user) ''points'' = Num 100 \<and>
           (if supabase db then users_table db' = users_table db @ [user]
            else mockUsers db' = mockUsers db @ [user]) \<and>
           user_activity db' =
             (if supabase db \<and> activity_insert e = Accepted then
                user_activity db @
                  [\<lparr>act_user_id = field user ''id'', tournament_id = Null, act_reward_id = Null,
                    activity_type = ''registration'', description = ''User registered'',
                    points_change = 100\<rparr>]
              else user_activity db)"
proof -
  from assms(6) have pw: "pw \<noteq> []" "\<not> length pw < 6" by auto
  show ?thesis
  proof (cases "supabase db")
    case True
    with assms pw show ?thesis
      by (cases "activity_insert e")
         (simp_all add: register_def createUser_def logActivity_def insert_activity_def Let_def
            field_def without_password_def map_add_def)
  next
    case False
    with assms pw show ?thesis
      by (simp add: register_def createUser_def logActivity_def Let_def
            field_def without_password_def map_add_def)
  qed
qed

theorem register_welcome_bonus_witness:
  "status (fst (register env0 auth0 bob_request)) = 201 \<and>
   map_option (\<lambda>u. field u ''points'') (returned_user (body (fst (register env0 auth0 bob_request))))
     = Some (Num 100) \<and>
   map (\<lambda>u. field u ''points'') (users_table (snd (register env0 auth0 bob_request))) =
     [Num 100, Num 100] \<and>
   map (\<lambda>a. (activity_type a, points_change a))
      (user_activity (snd (register env0 auth0 bob_request))) = [(''registration'', 100)]"
proof -
  have g: "getUserByEmail env0 auth0 ''bob@example.com'' = Inr None"
    by (simp add: getUserByEmail_def single_rows_def single_def field_def Let_def env0_def auth0_def
          alice_def)
  have h: "username bob_request = Some ''bob''" "email bob_request = Some ''bob@example.com''"
      "password bob_request = Some secret1" "6 \<le> length secret1"
      "supabase auth0" "user_write env0 = None" "activity_insert env0 = Accepted"
      "user_activity auth0 = []" "users_table auth0 = [alice]" "field alice ''points'' = Num 100"
    by (simp_all add: bob_request_def secret1_def auth0_def env0_def alice_def field_def)
  from register_welcome_bonus [OF h(1) _ h(2) _ h(3) h(4) g] h
  obtain user db' where
    "register env0 auth0 bob_request =
       (\<lparr>status = 201,
         body = AuthJson ''User registered successfully'' (token_for env0 user)
                  (without_password user)\<rparr>, db')"
    "field user ''points'' = Num 100" "field (without_password user) ''points'' = Num 100"
    "users_table db' = [alice, user]"
    "user_activity db' =
       [\<lparr>act_user_id = field user ''id'', tournament_id = Null, act_reward_id = Null,
         activity_type = ''registration'', description = ''User registered'',
         points_change = 100\<rparr>]"
    by auto
  with h show ?thesis by simp
qed

text \<open>
  "A registration Activity Entry is recorded" does not hold for every valid
  registration: with the append refused, or without a client, the registration succeeds
  with 100 points and no entry.
\<close>

theorem register_without_activity_entry:
  "status (fst (register (env0\<lparr>activity_insert := Rejected (PgError ''42501'')\<rparr>) auth0 bob_request))
     = 201 \<and>
   map_option (\<lambda>u. field u ''points'')
     (returned_user (body (fst (register (env0\<lparr>activity_insert := Rejected (PgError ''42501'')\<rparr>)
        auth0 bob_request)))) = Some (Num 100) \<and>
   user_activity (snd (register (env0\<lparr>activity_insert := Rejected (PgError ''42501'')\<rparr>)
      auth0 bob_request)) = user_activity auth0 \<and>
   status (fst (register env0 (auth0\<lparr>supabase := False\<rparr>) bob_request)) = 201 \<and>
   user_activity (snd (register env0 (auth0\<lparr>supabase := False\<rparr>) bob_request)) =
     user_activity auth0"
  by (simp add: auth_eval without_password_def)

subsection \<open>Login\<close>

text \<open>
  On a row that holds the hash as a string under \<open>password\<close>, an unknown identity and
  a secret that does not verify get the same response, status 401 with
  \<open>Invalid email or password\<close>, and neither changes the state.
\<close>

lemma login_same_error:
  assumes "email r1 = Some m1" and "m1 \<noteq> []" and "password r1 = Some p1" and "p1 \<noteq> []"
    and "getUserByEmail e1 db1 (trim e1 (toLowerCase e1 m1)) = Inr None"
    and "email r2 = Some m2" and "m2 \<noteq> []" and "password r2 = Some p2" and "p2 \<noteq> []"
    and "getUserByEmail e2 db2 (trim e2 (toLowerCase e2 m2)) = Inr (Some user)"
    and "field user ''password'' = Str hash" and "\<not> bcrypt_compare e2 p2 hash"
  shows "fst (login e1 db1 r1) = \<lparr>status = 401, body = ErrorJson ''Invalid email or password''\<rparr> \<and>
         fst (login e2 db2 r2) = fst (login e1 db1 r1) \<and>
         snd (login e1 db1 r1) = db1 \<and> snd (login e2 db2 r2) = db2"
  using assms by (simp add: login_def)

lemma login_same_error_on_alice:
  "fst (login env0 auth0
      \<lparr>username = None, email = Some ''nobody@example.com'', password = Some secret1\<rparr>) =
     \<lparr>status = 401, body = ErrorJson ''Invalid email or password''\<rparr> \<and>
   fst (login env0 auth0
      \<lparr>username = None, email = Some ''alice@example.com'',
       password = Some [0x73, 0x65, 0x63, 0x72, 0x65, 0x74, 0x32]\<rparr>) =
     fst (login env0 auth0
      \<lparr>username = None, email = Some ''nobody@example.com'', password = Some secret1\<rparr>) \<and>
   snd (login env0 auth0
      \<lparr>username = None, email = Some ''nobody@example.com'', password = Some secret1\<rparr>) = auth0 \<and>
   snd (login env0 auth0
      \<lparr>username = None, email = Some ''alice@example.com'',
       password = Some [0x73, 0x65, 0x63, 0x72, 0x65, 0x74, 0x32]\<rparr>) = auth0"
proof -
  let ?r1 = "\<lparr>username = None, email = Some ''nobody@example.com'', password = Some secret1\<rparr>"
  let ?r2 = "\<lparr>username = None, email = Some ''alice@example.com'',
       password = Some [0x73, 0x65, 0x63, 0x72, 0x65, 0x74, 0x32 :: 16 word]\<rparr>"
  have n: "getUserByEmail env0 auth0 (trim env0 (toLowerCase env0 ''nobody@example.com'')) = Inr None"
    by (simp add: auth_eval)
  have f: "getUserByEmail env0 auth0 (trim env0 (toLowerCase env0 ''alice@example.com'')) =
      Inr (Some alice)"
    by (simp add: getUserByEmail_def single_rows_def single_def field_def Let_def env0_def auth0_def)
       (simp add: alice_def)
  have h: "field alice ''password'' = Str ''$2a$12$alice''"
    by (simp add: field_def alice_def)
  have m: "\<not> bcrypt_compare env0 [0x73, 0x65, 0x63, 0x72, 0x65, 0x74, 0x32] ''$2a$12$alice''"
    by (simp add: env0_def)
  from login_same_error [of ?r1 "''nobody@example.com''" secret1 env0 auth0 ?r2
      "''alice@example.com''" "[0x73, 0x65, 0x63, 0x72, 0x65, 0x74, 0x32]" env0 auth0 alice
      "''$2a$12$alice''", OF _ _ _ _ n _ _ _ _ f h m]
  show ?thesis by (simp add: secret1_def)
qed


subsection \<open>Failures of the activity log\<close>

text \<open>
  Claim C9. \<open>logActivity\<close> returns whatever happens to its insert, and what
  \<open>claimReward\<close>, \<open>register\<close> and \<open>login\<close> report to their caller does not depend on
  the reply to that insert: a call that succeeds when the append is accepted succeeds
  when it is refused or rejected.
\<close>

theorem activity_failure_never_propagates:
  "(\<exists>d. fst (logActivity e s uid ty ds pc t r) = Inr d) \<and>
   fst (claimReward (e\<lparr>activity_insert := out\<rparr>) st userId rewardId) =
     fst (claimReward e st userId rewardId) \<and>
   fst (register (e\<lparr>activity_insert := out\<rparr>) db req) = fst (register e db req) \<and>
   fst (login (e\<lparr>activity_insert := out\<rparr>) db req) = fst (login e db req)"
proof (intro conjI)
  show "\<exists>d. fst (logActivity e s uid ty ds pc t r) = Inr d"
    by (rule logActivity_returns)
  show "fst (claimReward (e\<lparr>activity_insert := out\<rparr>) st userId rewardId) =
     fst (claimReward e st userId rewardId)"
    by (simp add: claimReward_def claim_read_activity claim_commit_activity
        split: sum.splits prod.splits)
  show "fst (register (e\<lparr>activity_insert := out\<rparr>) db req) = fst (register e db req)"
    by (rule register_activity)
  show "fst (login (e\<lparr>activity_insert := out\<rparr>) db req) = fst (login e db req)"
    by (rule login_activity)
qed

theorem activity_failure_never_propagates_witness:
  "fst (claimReward (env0\<lparr>activity_insert := Raised (Error ''fetch failed'')\<rparr>) store0 ''u1'' ''r1'')
     = Inr (Some \<lparr>user_id = ''u1'', reward_id = ''r1''\<rparr>) \<and>
   status (fst (register (env0\<lparr>activity_insert := Raised (Error ''fetch failed'')\<rparr>) auth0
     bob_request)) = 201 \<and>
   status (fst (login (env0\<lparr>activity_insert := Raised (Error ''fetch failed'')\<rparr>) auth0
     \<lparr>username = None, email = Some ''alice@example.com'', password = Some secret1\<rparr>)) = 200 \<and>
   user_activity (snd (claimReward (env0\<lparr>activity_insert := Raised (Error ''fetch failed'')\<rparr>)
     store0 ''u1'' ''r1'')) = [] \<and>
   console (snd (claimReward (env0\<lparr>activity_insert := Raised (Error ''fetch failed'')\<rparr>)
     store0 ''u1'' ''r1'')) = [''Activity logging failed:'']"
proof -
  have a: "fst (claimReward env0 store0 ''u1'' ''r1'') =
      Inr (Some \<lparr>user_id = ''u1'', reward_id = ''r1''\<rparr>)"
    by (simp add: claim_defs env0_def store0_def)
  have b: "status (fst (register env0 auth0 bob_request)) = 201"
    by (simp add: auth_eval)
  have c: "status (fst (login env0 auth0
      \<lparr>username = None, email = Some ''alice@example.com'', password = Some secret1\<rparr>)) = 200"
    by (simp add: auth_eval)
  have d: "user_activity (snd (claimReward (env0\<lparr>activity_insert := Raised (Error ''fetch failed'')\<rparr>)
     store0 ''u1'' ''r1'')) = [] \<and>
   console (snd (claimReward (env0\<lparr>activity_insert := Raised (Error ''fetch failed'')\<rparr>)
     store0 ''u1'' ''r1'')) = [''Activity logging failed:'']"
    by (simp add: claim_defs env0_def store0_def)
  from a b c d
    activity_failure_never_propagates [of env0 store0 _ _ _ _ _ _ "Raised (Error ''fetch failed'')"
      store0 "''u1''" "''r1''" auth0 bob_request]
    activity_failure_never_propagates [of env0 store0 _ _ _ _ _ _ "Raised (Error ''fetch failed'')"
      store0 "''u1''" "''r1''" auth0
      "\<lparr>username = None, email = Some ''alice@example.com'', password = Some secret1\<rparr>"]
  show ?thesis by simp
qed

subsection \<open>The password hash in responses\<close>

text \<open>
  The rest-destructuring removes the property \<open>password\<close> and nothing else: the user
  object of every successful response has no such property.
\<close>

lemma responses_carry_no_password:
  "(status (fst (register e db req)) = 201 \<longrightarrow>
      (\<exists>u. returned_user (body (fst (register e db req))) = Some u \<and> ''password'' \<notin> dom u)) \<and>
   (status (fst (login e db req)) = 200 \<longrightarrow>
      (\<exists>u. returned_user (body (fst (login e db req))) = Some u \<and> ''password'' \<notin> dom u)) \<and>
   (status (fst (getProfile e db userId)) = 200 \<longrightarrow>
      (\<exists>u. returned_user (body (fst (getProfile e db userId))) = Some u \<and> ''password'' \<notin> dom u)) \<and>
   (status (fst (updateProfile e db userId upd)) = 200 \<longrightarrow>
      (\<exists>u. returned_user (body (fst (updateProfile e db userId upd))) = Some u \<and>
           ''password'' \<notin> dom u))"
proof (intro conjI impI)
  assume "status (fst (register e db req)) = 201"
  then show "\<exists>u. returned_user (body (fst (register e db req))) = Some u \<and> ''password'' \<notin> dom u"
    by (auto simp: register_def caught_def Let_def domIff without_password_password
        split: option.splits if_splits sum.splits prod.splits)
next
  assume "status (fst (login e db req)) = 200"
  then show "\<exists>u. returned_user (body (fst (login e db req))) = Some u \<and> ''password'' \<notin> dom u"
    by (auto simp: login_def caught_def Let_def domIff without_password_password
        split: option.splits if_splits sum.splits prod.splits jsval.splits)
next
  assume "status (fst (getProfile e db userId)) = 200"
  then show "\<exists>u. returned_user (body (fst (getProfile e db userId))) = Some u \<and> ''password'' \<notin> dom u"
    by (auto simp: getProfile_def caught_def Let_def domIff without_password_password
        split: option.splits if_splits sum.splits prod.splits)
next
  assume "status (fst (updateProfile e db userId upd)) = 200"
  then show "\<exists>u. returned_user (body (fst (updateProfile e db userId upd))) = Some u \<and>
      ''password'' \<notin> dom u"
    by (auto simp: updateProfile_def caught_def Let_def domIff without_password_password
        split: option.splits if_splits sum.splits prod.splits)
qed

lemma responses_carry_no_password_on_alice:
  "status (fst (register env0 auth0 bob_request)) = 201 \<and>
   (\<exists>u. returned_user (body (fst (register env0 auth0 bob_request))) = Some u \<and>
        ''password'' \<notin> dom u) \<and>
   status (fst (login env0 auth0
      \<lparr>username = None, email = Some ''alice@example.com'', password = Some secret1\<rparr>)) = 200 \<and>
   (\<exists>u. returned_user (body (fst (login env0 auth0
      \<lparr>username = None, email = Some ''alice@example.com'', password = Some secret1\<rparr>))) = Some u \<and>
        ''password'' \<notin> dom u) \<and>
   status (fst (getProfile env0 auth0 ''a1'')) = 200 \<and>
   (\<exists>u. returned_user (body (fst (getProfile env0 auth0 ''a1''))) = Some u \<and>
        ''password'' \<notin> dom u) \<and>
   status (fst (updateProfile env0 auth0 ''a1'' \<lparr>name = Some ''Alice'', avatar = None\<rparr>)) = 200 \<and>
   (\<exists>u. returned_user (body (fst (updateProfile env0 auth0 ''a1''
      \<lparr>name = Some ''Alice'', avatar = None\<rparr>))) = Some u \<and> ''password'' \<notin> dom u) \<and>
   alice ''password'' = Some (Str ''$2a$12$alice'')"
proof -
  have a: "status (fst (register env0 auth0 bob_request)) = 201"
    by (simp add: auth_eval)
  have b: "status (fst (login env0 auth0
      \<lparr>username = None, email = Some ''alice@example.com'', password = Some secret1\<rparr>)) = 200"
    by (simp add: auth_eval)
  have c: "status (fst (getProfile env0 auth0 ''a1'')) = 200"
    by (simp add: auth_eval)
  have d: "status (fst (updateProfile env0 auth0 ''a1'' \<lparr>name = Some ''Alice'', avatar = None\<rparr>)) = 200"
    by (simp add: auth_eval)
  have p: "alice ''password'' = Some (Str ''$2a$12$alice'')"
    by (simp add: alice_def)
  from a b c d p
    responses_carry_no_password [of env0 auth0 bob_request]
    responses_carry_no_password [of env0 auth0
      "\<lparr>username = None, email = Some ''alice@example.com'', password = Some secret1\<rparr>" "''a1''"
      "\<lparr>name = Some ''Alice'', avatar = None\<rparr>"]
  show ?thesis by blast
qed


end
